theory Spec2Isabelle
  imports Complex_Main "HOL-Library.Word"
begin

unbundle bit_operations_syntax

section \<open>Memory descriptors of the primitive library\<close>

text \<open>
  The examples describe tensors to the library by memory descriptors: logical
  dimensions, a scalar type, and a physical layout given either by a format tag or by a
  stride vector.  The constructors and the comparison of descriptors are library code;
  they are modelled from the specification's Layout Descriptor.
\<close>

datatype data_type = f32 | s32 | s8 | u8

datatype format_tag = any | ab | nchw | nhwc | oihw

datatype layout_error = InvalidLayoutName | RankMismatch

text \<open>
  A resolved layout is a stride vector (one stride per logical dimension).  A descriptor
  built with the tag \<open>any\<close> is unconstrained, and a layout chosen by a primitive may
  be a blocked one that no stride vector expresses; it is kept by name.
\<close>

datatype layout = Unconstrained | Strided "int list" | Blocked string

record memory_desc =
  dims :: "int list"
  dtype :: data_type
  format :: layout

text \<open>
  Modelled from the spec: the physical order of the logical dimensions named by a
  canonical layout, outermost first (the tag table of the library is not part of the
  examples).  \<open>nhwc\<close> is the channel-last order of the logical dimensions (n, c, h, w).
\<close>

fun tag_order :: "format_tag \<Rightarrow> nat list option" where
  "tag_order any = None"
| "tag_order ab = Some [0, 1]"
| "tag_order nchw = Some [0, 1, 2, 3]"
| "tag_order nhwc = Some [0, 2, 3, 1]"
| "tag_order oihw = Some [0, 1, 2, 3]"

text \<open>
  Modelled from the spec: the stride of a dimension under a canonical order is the
  product of the extents of the dimensions that vary faster than it.
\<close>

definition faster_dims :: "nat list \<Rightarrow> nat \<Rightarrow> nat list" where
  "faster_dims order d = tl (dropWhile (\<lambda>e. e \<noteq> d) order)"

definition canonical_strides :: "int list \<Rightarrow> nat list \<Rightarrow> int list" where
  "canonical_strides shape order =
     map (\<lambda>d. prod_list (map (\<lambda>e. shape ! e) (faster_dims order d))) [0..<length shape]"

text \<open>
  Modelled from the spec: \<open>make_canonical(shape, name)\<close> fails with
  \<open>InvalidLayoutName\<close> if the name is unrecognized for the given rank.
\<close>

definition make_canonical :: "int list \<Rightarrow> format_tag \<Rightarrow> layout_error + layout" where
  "make_canonical shape name =
     (case tag_order name of
        None \<Rightarrow> Inl InvalidLayoutName
      | Some order \<Rightarrow>
          if length order \<noteq> length shape then Inl InvalidLayoutName
          else Inr (Strided (canonical_strides shape order)))"

text \<open>
  Modelled from the spec: \<open>make_strided(shape, strides)\<close> wraps an explicit stride
  vector and fails with \<open>RankMismatch\<close> if the lengths differ.
\<close>

definition make_strided :: "int list \<Rightarrow> int list \<Rightarrow> layout_error + layout" where
  "make_strided shape strides =
     (if length strides \<noteq> length shape then Inl RankMismatch else Inr (Strided strides))"

text \<open>
  Modelled from the spec: two layouts are equal iff their resolved stride vectors are
  element-wise identical (no special case for dimensions of extent 1).
\<close>

fun equals :: "layout \<Rightarrow> layout \<Rightarrow> bool" where
  "equals (Strided a) (Strided b) = (a = b)"
| "equals (Blocked a) (Blocked b) = (a = b)"
| "equals Unconstrained Unconstrained = True"
| "equals (Strided a) (Blocked b) = False"
| "equals (Strided a) Unconstrained = False"
| "equals (Blocked a) (Strided b) = False"
| "equals (Blocked a) Unconstrained = False"
| "equals Unconstrained (Strided b) = False"
| "equals Unconstrained (Blocked b) = False"

text \<open>
  The exceptions of the examples.  The library's constructors throw \<open>dnnl::error\<close>;
  the examples themselves throw \<open>std::logic_error\<close> with a message.
\<close>

datatype exn = dnnl_error | std_string string | logic_error string

text \<open>
  Modelled from the spec: the library's constructor
  \<open>memory::desc(dims, data_type, format_tag)\<close>.  The tag \<open>any\<close> leaves the layout
  to the primitive, every other tag is resolved to strides by \<open>make_canonical\<close>.
\<close>

definition desc_of_tag :: "int list \<Rightarrow> data_type \<Rightarrow> format_tag \<Rightarrow> exn + memory_desc" where
  "desc_of_tag ds dt tag =
     (if tag = any then Inr \<lparr>dims = ds, dtype = dt, format = Unconstrained\<rparr>
      else case make_canonical ds tag of
             Inl e \<Rightarrow> Inl dnnl_error
           | Inr l \<Rightarrow> Inr \<lparr>dims = ds, dtype = dt, format = l\<rparr>)"

text \<open>
  Modelled from the spec: the library's constructor
  \<open>memory::desc(dims, data_type, strides)\<close>, by \<open>make_strided\<close>.
\<close>

definition desc_of_strides :: "int list \<Rightarrow> data_type \<Rightarrow> int list \<Rightarrow> exn + memory_desc" where
  "desc_of_strides ds dt strides =
     (case make_strided ds strides of
        Inl e \<Rightarrow> Inl dnnl_error
      | Inr l \<Rightarrow> Inr \<lparr>dims = ds, dtype = dt, format = l\<rparr>)"

text \<open>
  Modelled from the spec: the library's \<open>operator!=\<close> on descriptors, which compares
  the shapes, the scalar types and, by \<open>equals\<close>, the layouts.
\<close>

definition desc_neq :: "memory_desc \<Rightarrow> memory_desc \<Rightarrow> bool" where
  "desc_neq a b =
     (\<not> (dims a = dims b \<and> dtype a = dtype b \<and> equals (format a) (format b)))"

section \<open>Getting started: ReLU on a channel-last image\<close>

text \<open>
  The C++ \<open>int\<close> values of the example are modelled as unbounded integers: every value
  the example computes lies between 0 and 507, far from signed overflow, which no index
  of magnitude up to \<open>10^6\<close> can reach.
\<close>

definition N :: int where "N = 1"
definition H :: int where "H = 13"
definition W :: int where "W = 13"
definition C :: int where "C = 3"

definition stride_N :: int where "stride_N = H * W * C"
definition stride_H :: int where "stride_H = W * C"
definition stride_W :: int where "stride_W = C"
definition stride_C :: int where "stride_C = 1"

text \<open>The lambda \<open>offset\<close> (lines 37 to 39), as written.\<close>

definition offset :: "int \<Rightarrow> int \<Rightarrow> int \<Rightarrow> int \<Rightarrow> int" where
  "offset n h w c = n * stride_N + h * stride_H + w * stride_W + stride_C"

definition image_size :: int where "image_size = N * H * W * C"

text \<open>
  The specification's offset of a layout with an explicit stride vector: the sum of
  \<open>indices[i] * strides[i]\<close>.  It is stated here to compare the lambda with it.
\<close>

definition offset_spec :: "int list \<Rightarrow> int list \<Rightarrow> int" where
  "offset_spec strides indices = sum_list (map2 (\<lambda>i s. i * s) indices strides)"

text \<open>Indices small enough for the arithmetic of \<open>offset\<close> to stay within \<open>int\<close>.\<close>

definition no_overflow :: "int \<Rightarrow> int \<Rightarrow> int \<Rightarrow> int \<Rightarrow> bool" where
  "no_overflow n h w c =
     (\<bar>n\<bar> \<le> 1000000 \<and> \<bar>h\<bar> \<le> 1000000 \<and> \<bar>w\<bar> \<le> 1000000 \<and> \<bar>c\<bar> \<le> 1000000)"

text \<open>The index tuples of the shape: what the four nested loops enumerate.\<close>

definition valid_index :: "int \<Rightarrow> int \<Rightarrow> int \<Rightarrow> int \<Rightarrow> bool" where
  "valid_index n h w c =
     (0 \<le> n \<and> n < N \<and> 0 \<le> h \<and> h < H \<and> 0 \<le> w \<and> w < W \<and> 0 \<le> c \<and> c < C)"

text \<open>
  A \<open>for\<close> loop over a range whose body may throw: the first exception leaves the loop.
\<close>

fun for_each :: "('a \<Rightarrow> exn + unit) \<Rightarrow> 'a list \<Rightarrow> exn + unit" where
  "for_each body [] = Inr ()"
| "for_each body (x # xs) =
     (case body x of Inl e \<Rightarrow> Inl e | Inr u \<Rightarrow> for_each body xs)"

text \<open>
  The image (\<open>img\<close> below) is a \<open>std::vector<float>\<close> of \<open>image_size\<close> zeros.
  Its elements are modelled as reals: the example only compares them with \<open>0\<close> and
  with each other, and no value it stores is a NaN.  The initialisation loops (lines 48 to 57) store
  \<open>-cos(off / 10)\<close> at every offset they visit.
\<close>

definition init_element :: "int \<Rightarrow> int \<Rightarrow> int \<Rightarrow> int \<Rightarrow> real list \<Rightarrow> real list" where
  "init_element n h w c img =
     (let off = offset n h w c in img[nat off := - cos (real_of_int off / 10)])"

definition init_image :: "real list" where
  "init_image =
     fold (\<lambda>n. fold (\<lambda>h. fold (\<lambda>w. fold (\<lambda>c. init_element n h w c)
       [0..C - 1]) [0..W - 1]) [0..H - 1]) [0..N - 1]
       (replicate (nat image_size) 0)"

text \<open>
  What the initialisation loops keep: the size of the image, and its first element,
  which they never store to.
\<close>

definition first_untouched :: "real list \<Rightarrow> bool" where
  "first_untouched img \<longleftrightarrow> length img = nat image_size \<and> img ! 0 = 0"

text \<open>The body of the checking loops (lines 124 to 132).\<close>

definition check_element ::
  "real list \<Rightarrow> real list \<Rightarrow> int \<Rightarrow> int \<Rightarrow> int \<Rightarrow> int \<Rightarrow> exn + unit" where
  "check_element img relu_image n h w c =
     (let off = offset n h w c;
          expected = (if img ! nat off < 0 then 0 else img ! nat off)
      in if relu_image ! nat off \<noteq> expected
         then Inl (logic_error ''Accuracy check failed.'')
         else Inr ())"

text \<open>The four nested checking loops (lines 120 to 136).\<close>

definition check_result :: "real list \<Rightarrow> real list \<Rightarrow> exn + unit" where
  "check_result img relu_image =
     for_each (\<lambda>n. for_each (\<lambda>h. for_each (\<lambda>w. for_each (\<lambda>c.
       check_element img relu_image n h w c)
       [0..C - 1]) [0..W - 1]) [0..H - 1]) [0..N - 1]"

text \<open>
  Modelled from the spec: the ReLU step of the library (executed with \<open>alpha = 0\<close>)
  leaves in every element of the destination the maximum of 0 and the source element.
\<close>

definition relu :: "real list \<Rightarrow> real list" where
  "relu src = map (\<lambda>x. max 0 x) src"

text \<open>
  \<open>getting_started_tutorial\<close>.  The primitive is a parameter: \<open>execute\<close> maps the
  contents written to \<open>src_mem\<close> to the contents read back from \<open>dst_mem\<close>.
\<close>

definition getting_started_tutorial :: "(real list \<Rightarrow> real list) \<Rightarrow> exn + unit" where
  "getting_started_tutorial execute =
     (let img = init_image in
      case desc_of_tag [N, C, H, W] f32 nhwc of
        Inl e \<Rightarrow> Inl e
      | Inr src_md \<Rightarrow>
         (case desc_of_strides [N, C, H, W] f32 [stride_N, stride_C, stride_H, stride_W] of
            Inl e \<Rightarrow> Inl e
          | Inr alt_src_md \<Rightarrow>
              if desc_neq src_md alt_src_md
              then Inl (logic_error ''Memory descriptor initialization mismatch.'')
              else let relu_image = execute img in check_result img relu_image))"

text \<open>
  How a process ends: \<open>main\<close> returns an exit code, or an exception that no handler
  catches reaches \<open>std::terminate\<close>, which aborts the process.
\<close>

datatype process_result = Exit int | Terminate exn

text \<open>
  The status the environment sees: the exit code, or the abort of \<open>std::terminate\<close>,
  which is never reported as 0.
\<close>

fun nonzero_status :: "process_result \<Rightarrow> bool" where
  "nonzero_status (Exit k) = (k \<noteq> 0)"
| "nonzero_status (Terminate e) = True"

text \<open>
  \<open>main\<close> of the example (lines 142 to 162) has handlers for \<open>dnnl::error\<close> and for
  \<open>std::string\<close> only.
\<close>

definition main :: "(real list \<Rightarrow> real list) \<Rightarrow> process_result" where
  "main execute =
     (case getting_started_tutorial execute of
        Inr u \<Rightarrow> Exit 0
      | Inl dnnl_error \<Rightarrow> Exit 1
      | Inl (std_string e) \<Rightarrow> Exit 2
      | Inl (logic_error m) \<Rightarrow> Terminate (logic_error m))"

section \<open>Memory format propagation: convolution and pooling\<close>

text \<open>
  Modelled from the spec: the library's memory objects.
  A \<open>dnnl::memory\<close> object is a handle: copying it (as the conditional expressions of
  lines 123 to 126 do) yields another name for the same buffer.  The store maps every
  handle to the buffer it names; \<open>memory(desc, eng)\<close> allocates the next handle.
  What the primitives compute is library code: the contents of a buffer are kept as the
  term of the operations that produced them, starting from the contents the buffers had
  when they were allocated (the example never fills a buffer itself).
\<close>

type_synonym handle = nat

datatype tensor = Uninitialized handle | Reorder tensor | Convolution tensor tensor | Pooling tensor

record buffer =
  desc :: memory_desc
  contents :: tensor

record store =
  next_handle :: nat
  buffers :: "handle \<rightharpoonup> buffer"

definition empty_store :: store where
  "empty_store = \<lparr>next_handle = 0, buffers = Map.empty\<rparr>"

definition memory :: "memory_desc \<Rightarrow> store \<Rightarrow> handle \<times> store" where
  "memory md s =
     (next_handle s,
      s\<lparr>next_handle := Suc (next_handle s),
        buffers := (buffers s)(next_handle s \<mapsto>
          \<lparr>desc = md, contents = Uninitialized (next_handle s)\<rparr>)\<rparr>)"

definition read_contents :: "store \<Rightarrow> handle \<Rightarrow> tensor" where
  "read_contents s h = (case buffers s h of None \<Rightarrow> Uninitialized h | Some b \<Rightarrow> contents b)"

definition write_contents :: "handle \<Rightarrow> tensor \<Rightarrow> store \<Rightarrow> store" where
  "write_contents h t s =
     s\<lparr>buffers := (buffers s)(h := map_option (\<lambda>b. b\<lparr>contents := t\<rparr>) (buffers s h))\<rparr>"

text \<open>
  The argument tags of \<open>execute\<close>.  The library's header defines \<open>DNNL_ARG_FROM\<close> as
  \<open>DNNL_ARG_SRC\<close> and \<open>DNNL_ARG_TO\<close> as \<open>DNNL_ARG_DST\<close>.
\<close>

datatype arg = DNNL_ARG_SRC | DNNL_ARG_DST | DNNL_ARG_WEIGHTS

abbreviation DNNL_ARG_FROM :: arg where "DNNL_ARG_FROM \<equiv> DNNL_ARG_SRC"
abbreviation DNNL_ARG_TO :: arg where "DNNL_ARG_TO \<equiv> DNNL_ARG_DST"

text \<open>
  Modelled from the spec: the library's \<open>execute\<close> of the three primitives on an
  argument map.  Each reads the buffers bound to its input tags and writes the buffer
  bound to its output tag, leaving every other buffer as it is; a missing argument is
  the library's \<open>dnnl::error\<close>.
\<close>

definition reorder_execute :: "(arg \<times> handle) list \<Rightarrow> store \<Rightarrow> exn + store" where
  "reorder_execute args s =
     (case (map_of args DNNL_ARG_FROM, map_of args DNNL_ARG_TO) of
        (Some from, Some to) \<Rightarrow> Inr (write_contents to (Reorder (read_contents s from)) s)
      | _ \<Rightarrow> Inl dnnl_error)"

definition conv_execute :: "(arg \<times> handle) list \<Rightarrow> store \<Rightarrow> exn + store" where
  "conv_execute args s =
     (case (map_of args DNNL_ARG_SRC, map_of args DNNL_ARG_WEIGHTS, map_of args DNNL_ARG_DST) of
        (Some src, Some wei, Some dst) \<Rightarrow>
          Inr (write_contents dst (Convolution (read_contents s src) (read_contents s wei)) s)
      | _ \<Rightarrow> Inl dnnl_error)"

definition pool_execute :: "(arg \<times> handle) list \<Rightarrow> store \<Rightarrow> exn + store" where
  "pool_execute args s =
     (case (map_of args DNNL_ARG_SRC, map_of args DNNL_ARG_DST) of
        (Some src, Some dst) \<Rightarrow> Inr (write_contents dst (Pooling (read_contents s src)) s)
      | _ \<Rightarrow> Inl dnnl_error)"

text \<open>Sequencing of steps that may throw.\<close>

definition then_do :: "exn + 'a \<Rightarrow> ('a \<Rightarrow> exn + 'b) \<Rightarrow> exn + 'b" where
  "then_do r f = (case r of Inl e \<Rightarrow> Inl e | Inr x \<Rightarrow> f x)"

text \<open>
  The constants of the example (line 51); the primes tell \<open>N\<close>, \<open>H\<close> and \<open>W\<close>
  from those of the first example.
\<close>

definition N' :: int where "N' = 1"
definition H' :: int where "H' = 14"
definition W' :: int where "W' = 14"
definition IC :: int where "IC = 128"
definition OC :: int where "OC = 256"
definition KH :: int where "KH = 3"
definition KW :: int where "KW = 3"

text \<open>
  The layouts a convolution primitive descriptor reports for its operands are the
  library's choice (the descriptors passed in have the tag \<open>any\<close>), and so are the
  scratchpad descriptors.  What the two primitive descriptors report is the input of the
  model.
\<close>

record conv_primitive_desc =
  src_desc :: memory_desc
  weights_desc :: memory_desc
  dst_desc :: memory_desc
  scratchpad_desc :: memory_desc

record pool_primitive_desc =
  pool_dst_desc :: memory_desc
  pool_scratchpad_desc :: memory_desc

text \<open>The variables of \<open>memory_format_propagation_tutorial\<close> that outlive line 126.\<close>

record locals =
  need_reorder_src :: bool
  need_reorder_weights :: bool
  need_reorder_dst :: bool
  src_mem :: handle
  weights_mem :: handle
  dst_mem :: handle
  conv_src_mem :: handle
  conv_weights_mem :: handle
  conv_dst_mem :: handle
  pool_dst_mem :: handle

text \<open>
  Lines 98 to 115: the user's memory objects, in the plain layouts \<open>nchw\<close>, \<open>oihw\<close>
  and \<open>nchw\<close>.
\<close>

definition user_src_md :: "exn + memory_desc" where
  "user_src_md = desc_of_tag [N', IC, H', W'] f32 nchw"

definition user_weights_md :: "exn + memory_desc" where
  "user_weights_md = desc_of_tag [OC, IC, KH, KW] f32 oihw"

definition user_dst_md :: "exn + memory_desc" where
  "user_dst_md = desc_of_tag [N', OC, H', W'] f32 nchw"

text \<open>The descriptors these three constructions yield.\<close>

definition nchw_src_md :: memory_desc where
  "nchw_src_md =
     \<lparr>dims = [N', IC, H', W'], dtype = f32,
      format = Strided [IC * H' * W', H' * W', W', 1]\<rparr>"

definition oihw_weights_md :: memory_desc where
  "oihw_weights_md =
     \<lparr>dims = [OC, IC, KH, KW], dtype = f32,
      format = Strided [IC * KH * KW, KH * KW, KW, 1]\<rparr>"

definition nchw_dst_md :: memory_desc where
  "nchw_dst_md =
     \<lparr>dims = [N', OC, H', W'], dtype = f32,
      format = Strided [OC * H' * W', H' * W', W', 1]\<rparr>"

text \<open>
  Lines 98 to 126: the user's buffers, the three flags and the intermediate buffers.
  \<open>get_desc()\<close> of a memory object is the descriptor it was created with.
\<close>

definition allocate_buffers ::
  "conv_primitive_desc \<Rightarrow> pool_primitive_desc \<Rightarrow> store \<Rightarrow> exn + locals \<times> store" where
  "allocate_buffers conv_pd pool_pd s0 =
     then_do user_src_md (\<lambda>src_md.
     then_do user_weights_md (\<lambda>weights_md.
     then_do user_dst_md (\<lambda>dst_md.
       let (src_mem, s1) = memory src_md s0;
           (weights_mem, s2) = memory weights_md s1;
           (dst_mem, s3) = memory dst_md s2;
           need_reorder_src = desc_neq (src_desc conv_pd) src_md;
           need_reorder_weights = desc_neq (weights_desc conv_pd) weights_md;
           need_reorder_dst = desc_neq (dst_desc conv_pd) dst_md;
           (conv_src_mem, s4) =
              (if need_reorder_dst then memory (src_desc conv_pd) s3 else (src_mem, s3));
           (conv_weights_mem, s5) =
              (if need_reorder_weights then memory (weights_desc conv_pd) s4
               else (weights_mem, s4));
           (conv_dst_mem, s6) = memory (dst_desc conv_pd) s5;
           (pool_dst_mem, s7) =
              (if need_reorder_dst then memory (pool_dst_desc pool_pd) s6 else (dst_mem, s6))
       in Inr (\<lparr>need_reorder_src = need_reorder_src,
                need_reorder_weights = need_reorder_weights,
                need_reorder_dst = need_reorder_dst,
                src_mem = src_mem, weights_mem = weights_mem, dst_mem = dst_mem,
                conv_src_mem = conv_src_mem, conv_weights_mem = conv_weights_mem,
                conv_dst_mem = conv_dst_mem, pool_dst_mem = pool_dst_mem\<rparr>, s7))))"

text \<open>Lines 129 to 137: the argument map of the source reorder, and the step.\<close>

definition reorder_src_args :: "locals \<Rightarrow> (arg \<times> handle) list" where
  "reorder_src_args l = [(DNNL_ARG_FROM, src_mem l), (DNNL_ARG_TO, conv_weights_mem l)]"

definition reorder_src_step :: "locals \<Rightarrow> store \<Rightarrow> exn + store" where
  "reorder_src_step l s =
     (if need_reorder_src l then reorder_execute (reorder_src_args l) s else Inr s)"

text \<open>Lines 139 to 146.\<close>

definition reorder_weights_args :: "locals \<Rightarrow> (arg \<times> handle) list" where
  "reorder_weights_args l =
     [(DNNL_ARG_FROM, weights_mem l), (DNNL_ARG_TO, conv_weights_mem l)]"

definition reorder_weights_step :: "locals \<Rightarrow> store \<Rightarrow> exn + store" where
  "reorder_weights_step l s =
     (if need_reorder_weights l then reorder_execute (reorder_weights_args l) s else Inr s)"

text \<open>
  Lines 148 to 165: the convolution and the pooling.  Each allocates a scratchpad buffer
  first, which is passed to no primitive.
\<close>

definition conv_pool_step ::
  "conv_primitive_desc \<Rightarrow> pool_primitive_desc \<Rightarrow> locals \<Rightarrow> store \<Rightarrow> exn + store" where
  "conv_pool_step conv_pd pool_pd l s =
     (let (conv_scratchpad_mem, s1) = memory (scratchpad_desc conv_pd) s in
      then_do (conv_execute [(DNNL_ARG_FROM, conv_src_mem l),
                             (DNNL_ARG_WEIGHTS, conv_weights_mem l),
                             (DNNL_ARG_DST, conv_dst_mem l)] s1) (\<lambda>s2.
        let (pool_scratchpad_mem, s3) = memory (pool_scratchpad_desc pool_pd) s2 in
        pool_execute [(DNNL_ARG_SRC, conv_dst_mem l), (DNNL_ARG_DST, pool_dst_mem l)] s3))"

text \<open>Lines 167 to 175.\<close>

definition reorder_dst_step :: "locals \<Rightarrow> store \<Rightarrow> exn + store" where
  "reorder_dst_step l s =
     (if need_reorder_dst l
      then reorder_execute [(DNNL_ARG_FROM, pool_dst_mem l), (DNNL_ARG_TO, dst_mem l)] s
      else Inr s)"

definition memory_format_propagation_tutorial ::
  "conv_primitive_desc \<Rightarrow> pool_primitive_desc \<Rightarrow> exn + locals \<times> store" where
  "memory_format_propagation_tutorial conv_pd pool_pd =
     then_do (allocate_buffers conv_pd pool_pd empty_store) (\<lambda>(l, s).
     then_do (reorder_src_step l s) (\<lambda>s.
     then_do (reorder_weights_step l s) (\<lambda>s.
     then_do (conv_pool_step conv_pd pool_pd l s) (\<lambda>s.
     then_do (reorder_dst_step l s) (\<lambda>s. Inr (l, s))))))"

text \<open>
  Layouts a convolution may report.  The run logged at the end of the example
  (lines 184 to 194) reports the channel-last layout for source and destination and the
  blocked layout \<open>Acdb32a\<close> for the weights.
\<close>

definition nhwc_src_md :: memory_desc where
  "nhwc_src_md =
     \<lparr>dims = [N', IC, H', W'], dtype = f32,
      format = Strided [H' * W' * IC, 1, W' * IC, IC]\<rparr>"

definition nhwc_dst_md :: memory_desc where
  "nhwc_dst_md =
     \<lparr>dims = [N', OC, H', W'], dtype = f32,
      format = Strided [H' * W' * OC, 1, W' * OC, OC]\<rparr>"

definition blocked_weights_md :: memory_desc where
  "blocked_weights_md =
     \<lparr>dims = [OC, IC, KH, KW], dtype = f32, format = Blocked ''Acdb32a''\<rparr>"

text \<open>An empty scratchpad: the library manages its scratchpad itself by default.\<close>

definition empty_scratchpad_md :: memory_desc where
  "empty_scratchpad_md = \<lparr>dims = [0], dtype = u8, format = Strided [1]\<rparr>"

definition logged_conv_pd :: conv_primitive_desc where
  "logged_conv_pd =
     \<lparr>src_desc = nhwc_src_md, weights_desc = blocked_weights_md, dst_desc = nhwc_dst_md,
      scratchpad_desc = empty_scratchpad_md\<rparr>"

definition nhwc_pool_pd :: pool_primitive_desc where
  "nhwc_pool_pd =
     \<lparr>pool_dst_desc = nhwc_dst_md, pool_scratchpad_desc = empty_scratchpad_md\<rparr>"

definition nchw_pool_pd :: pool_primitive_desc where
  "nchw_pool_pd =
     \<lparr>pool_dst_desc = nchw_dst_md, pool_scratchpad_desc = empty_scratchpad_md\<rparr>"

text \<open>A convolution that keeps the user's destination layout and changes the source's.\<close>

definition src_only_conv_pd :: conv_primitive_desc where
  "src_only_conv_pd =
     \<lparr>src_desc = nhwc_src_md, weights_desc = oihw_weights_md, dst_desc = nchw_dst_md,
      scratchpad_desc = empty_scratchpad_md\<rparr>"

text \<open>
  A convolution that keeps the user's source and weights layouts and changes the
  destination's.
\<close>

definition dst_only_conv_pd :: conv_primitive_desc where
  "dst_only_conv_pd =
     \<lparr>src_desc = nchw_src_md, weights_desc = oihw_weights_md, dst_desc = nhwc_dst_md,
      scratchpad_desc = empty_scratchpad_md\<rparr>"

section \<open>INT8 matrix multiplication fused with ReLU\<close>

text \<open>The zero points of \<open>infer\<close> (line 332) and the sizes of line 360.\<close>

definition zp_A :: int where "zp_A = 128"
definition zp_C :: int where "zp_C = 40"

definition matmul_K :: int where "matmul_K = 96"
definition matmul_N :: int where "matmul_N = 1000"

text \<open>
  The check of \<open>infer\<close> (lines 352 to 356) over the indices \<open>0, ..., M * N - 1\<close>: the
  \<open>uint8_t\<close> element is promoted to \<open>int\<close> and compared with \<open>zp_C\<close>; the first element
  below it returns 1.
\<close>

fun check_C_u8 :: "8 word list \<Rightarrow> nat list \<Rightarrow> int" where
  "check_C_u8 C_u8 [] = 0"
| "check_C_u8 C_u8 (i # is) = (if uint (C_u8 ! i) < zp_C then 1 else check_C_u8 C_u8 is)"

text \<open>
  \<open>C_u8\<close> is a vector of \<open>m * n\<close> zeros that the primitive writes to: where the
  library wrote nothing a zero stays.
\<close>

definition C_u8_after :: "int \<Rightarrow> int \<Rightarrow> 8 word list \<Rightarrow> 8 word list" where
  "C_u8_after m n written = take (nat (m * n)) (written @ replicate (nat (m * n)) 0)"

text \<open>
  \<open>infer\<close>.  The primitive is a parameter: \<open>execute m\<close> is what the library writes to
  the destination for the \<open>m\<close> rows of a random source, or the library's exception.
\<close>

definition infer :: "(int \<Rightarrow> exn + 8 word list) \<Rightarrow> int \<Rightarrow> int \<Rightarrow> int \<Rightarrow> exn + int" where
  "infer execute m n k =
     then_do (execute m) (\<lambda>written.
       let C_u8 = C_u8_after m n written
       in Inr (check_C_u8 C_u8 [0..<nat (m * n)]))"

text \<open>\<open>inference_int8_matmul\<close>: the loop over \<open>M\<close> accumulates the results with \<open>|=\<close>.\<close>

fun infer_all :: "(int \<Rightarrow> exn + 8 word list) \<Rightarrow> int list \<Rightarrow> int \<Rightarrow> exn + int" where
  "infer_all execute [] rc = Inr rc"
| "infer_all execute (m # ms) rc =
     then_do (infer execute m matmul_N matmul_K) (\<lambda>r. infer_all execute ms (rc OR r))"

definition inference_int8_matmul :: "(int \<Rightarrow> exn + 8 word list) \<Rightarrow> exn + int" where
  "inference_int8_matmul execute = infer_all execute [1, 100] 0"

text \<open>
  \<open>main\<close> of the example (lines 388 to 397): what it prints to the standard output and
  how the process ends.  Its only handler is for \<open>dnnl::error\<close>.
\<close>

definition main_int8_matmul :: "(int \<Rightarrow> exn + 8 word list) \<Rightarrow> string list \<times> process_result" where
  "main_int8_matmul execute =
     (case inference_int8_matmul execute of
        Inr rc \<Rightarrow> ([if rc \<noteq> 0 then ''failed'' else ''passed''], Exit 0)
      | Inl dnnl_error \<Rightarrow> ([], Exit 0)
      | Inl e \<Rightarrow> ([], Terminate e))"

text \<open>
  Modelled from the spec: the primitive of the example, which is library code.  The
  operation is the one the example documents (line 289),
  \<open>C_u8 = ReLU(scale * (A_u8 - zp_A) * B_s8) + zp_C\<close>, with one scale per column.  The
  scales are reals, and the result is rounded and saturated to the range of \<open>uint8_t\<close>.
\<close>

definition saturate_u8 :: "real \<Rightarrow> 8 word" where
  "saturate_u8 x = word_of_int (max 0 (min 255 (round x)))"

definition matmul_element ::
  "8 word list \<Rightarrow> (nat \<Rightarrow> nat \<Rightarrow> 8 word) \<Rightarrow> real list \<Rightarrow> nat \<Rightarrow> nat \<Rightarrow> nat \<Rightarrow> nat \<Rightarrow> 8 word" where
  "matmul_element A_u8 B_s8 scales n k row col =
     (let acc = (\<Sum>p \<leftarrow> [0..<k]. (uint (A_u8 ! (row * k + p)) - zp_A) * sint (B_s8 p col))
      in saturate_u8 (max 0 (scales ! col * real_of_int acc) + real_of_int zp_C))"

definition matmul_relu ::
  "(int \<Rightarrow> 8 word list) \<Rightarrow> (nat \<Rightarrow> nat \<Rightarrow> 8 word) \<Rightarrow> (int \<Rightarrow> real list) \<Rightarrow> int \<Rightarrow> exn + 8 word list" where
  "matmul_relu A_u8 B_s8 scales m =
     Inr (map (\<lambda>i. matmul_element (A_u8 m) B_s8 (scales m) (nat matmul_N) (nat matmul_K)
                  (i div nat matmul_N) (i mod nat matmul_N))
            [0..<nat (m * matmul_N)])"

text \<open>
  Inputs used below: a primitive that writes only zeros, one that throws for
  \<open>M = 100\<close>, and a source matrix, weights and scales for the modelled primitive.
\<close>

definition zero_output :: "int \<Rightarrow> exn + 8 word list" where
  "zero_output m = Inr (replicate (nat (m * matmul_N)) 0)"

text \<open>A primitive whose results hold \<open>zp_C\<close> everywhere but for one element just below.\<close>

definition one_low_output :: "int \<Rightarrow> exn + 8 word list" where
  "one_low_output m = Inr (39 # replicate (nat (m * matmul_N) - 1) 40)"

text \<open>A primitive that throws in its first run.\<close>

definition failing_first_run :: "int \<Rightarrow> exn + 8 word list" where
  "failing_first_run m = Inl dnnl_error"

definition failing_second_run :: "int \<Rightarrow> exn + 8 word list" where
  "failing_second_run m = (if m = 1 then Inr (replicate (nat (m * matmul_N)) 0) else Inl dnnl_error)"

definition sample_A_u8 :: "int \<Rightarrow> 8 word list" where
  "sample_A_u8 m = replicate (nat (m * matmul_K)) 200"

definition sample_B_s8 :: "nat \<Rightarrow> nat \<Rightarrow> 8 word" where
  "sample_B_s8 p col = 1"

definition sample_scales :: "int \<Rightarrow> real list" where
  "sample_scales m = replicate (nat matmul_N) (1 / 2)"

text \<open>A primitive whose every result is one above the ReLU of its source.\<close>

definition shifted_relu :: "real list \<Rightarrow> real list" where
  "shifted_relu src = map (\<lambda>x. max 0 x + 1) src"

section \<open>Properties of the offset lambda\<close>

lemma offset_eq: "offset n h w c = n * 507 + h * 39 + w * 3 + 1"
  by (simp add: offset_def stride_N_def stride_H_def stride_W_def stride_C_def
      H_def W_def C_def)

text \<open>
  Claim C1.  The specification's offset of the index tuple \<open>(n, h, w, c)\<close> under the
  channel-last strides is \<open>n * (H * W * C) + h * (W * C) + w * C + c * 1\<close>.  The lambda
  of the example adds \<open>stride_C\<close> itself, not \<open>c * stride_C\<close>: at \<open>(0, 0, 0, 0)\<close> it
  returns 1 where the formula gives 0, and at \<open>(0, 0, 0, 2)\<close> it returns 1 where the
  formula gives 2.
\<close>

theorem offset_drops_channel_index:
  "offset 0 0 0 0 = 1
   \<and> offset_spec [stride_N, stride_H, stride_W, stride_C] [0, 0, 0, 0] = 0
   \<and> offset 0 0 0 2 = 1
   \<and> offset_spec [stride_N, stride_H, stride_W, stride_C] [0, 0, 0, 2] = 2"
  by (simp add: offset_eq offset_spec_def stride_C_def)

text \<open>
  Claim C3.  The offset mapping of the example is not injective over the index tuples of
  the shape: the valid tuples \<open>(0, 0, 0, 0)\<close> and \<open>(0, 0, 0, 1)\<close> have the same
  offset.
\<close>

theorem offset_collision:
  "valid_index 0 0 0 0 \<and> valid_index 0 0 0 1 \<and> offset 0 0 0 0 = offset 0 0 0 1"
  by (simp add: valid_index_def offset_eq N_def H_def W_def C_def)

text \<open>
  Claim C7, as stated: an index equal to its extent makes offset fail.  The lambda has
  no range check and no failure result: for the tuple \<open>(0, 13, 0, 0)\<close>, whose second
  index equals the extent \<open>H\<close>, it returns the offset 508.
\<close>

theorem offset_range_counterexample:
  "\<not> valid_index 0 13 0 0 \<and> offset 0 13 0 0 = 508"
  by (simp add: valid_index_def offset_eq H_def)

text \<open>
  Claim C7, amended.  The lambda checks no range: for indices that cannot overflow, an
  index equal to its extent, or a negative one, silently yields the offset of a
  neighbouring position.
\<close>

theorem offset_out_of_range_aliases:
  assumes "no_overflow n h w c"
  shows "offset n H w c = offset (n + 1) 0 w c
   \<and> offset n h W c = offset n (h + 1) 0 c
   \<and> offset n h (- 1) c = offset n (h - 1) (W - 1) c"
  by (simp add: offset_eq H_def W_def)

theorem offset_out_of_range_aliases_witness:
  "no_overflow 0 12 12 2
   \<and> offset 0 H 12 2 = offset 1 0 12 2
   \<and> offset 0 12 W 2 = offset 0 13 0 2
   \<and> offset 0 12 (- 1) 2 = offset 0 11 (W - 1) 2"
proof -
  have h: "no_overflow 0 12 12 2" by (simp add: no_overflow_def)
  show ?thesis using h offset_out_of_range_aliases [OF h] by simp
qed

section \<open>The descriptor of a canonical layout and of its strides\<close>

lemma upt_4: "[0..<4] = [0, 1, 2, 3]"
  by (simp add: upt_rec)

lemma canonical_strides_nhwc:
  "canonical_strides [n, c, h, w] [0, 2, 3, 1] = [h * w * c, 1, w * c, c]"
  unfolding canonical_strides_def faster_dims_def by (simp add: upt_4 nth_Cons')

lemma canonical_strides_nchw:
  "canonical_strides [n, c, h, w] [0, 1, 2, 3] = [c * h * w, h * w, w, 1]"
  unfolding canonical_strides_def faster_dims_def by (simp add: upt_4 nth_Cons')

lemma make_canonical_nhwc:
  "make_canonical [n, c, h, w] nhwc = Inr (Strided [h * w * c, 1, w * c, c])"
  by (simp add: make_canonical_def canonical_strides_nhwc del: One_nat_def)

lemma make_canonical_nchw:
  "make_canonical [n, c, h, w] nchw = Inr (Strided [c * h * w, h * w, w, 1])"
  by (simp add: make_canonical_def canonical_strides_nchw del: One_nat_def)

lemma make_canonical_oihw:
  "make_canonical [n, c, h, w] oihw = Inr (Strided [c * h * w, h * w, w, 1])"
  by (simp add: make_canonical_def canonical_strides_nchw del: One_nat_def)

lemma desc_of_tag_nhwc:
  "desc_of_tag [n, c, h, w] dt nhwc =
     Inr \<lparr>dims = [n, c, h, w], dtype = dt, format = Strided [h * w * c, 1, w * c, c]\<rparr>"
  unfolding desc_of_tag_def make_canonical_nhwc by simp

lemma desc_of_tag_nchw:
  "desc_of_tag [n, c, h, w] dt nchw =
     Inr \<lparr>dims = [n, c, h, w], dtype = dt, format = Strided [c * h * w, h * w, w, 1]\<rparr>"
  unfolding desc_of_tag_def make_canonical_nchw by simp

lemma desc_of_tag_oihw:
  "desc_of_tag [n, c, h, w] dt oihw =
     Inr \<lparr>dims = [n, c, h, w], dtype = dt, format = Strided [c * h * w, h * w, w, 1]\<rparr>"
  unfolding desc_of_tag_def make_canonical_oihw by simp

lemma tutorial_passes_descriptor_check:
  "getting_started_tutorial execute = check_result init_image (execute init_image)"
  unfolding getting_started_tutorial_def desc_of_tag_nhwc
  by (simp add: make_strided_def desc_of_strides_def desc_neq_def
      stride_N_def stride_H_def stride_W_def stride_C_def)

text \<open>
  Claim C2.  For every shape \<open>(n, c, h, w)\<close> the channel-last layout built from its
  name equals the layout built from the stride vector \<open>(h * w * c, 1, w * c, c)\<close>, and
  likewise for the plain order; for the shape of the example the two constructions of
  the descriptor agree, so the example passes its consistency check and goes on to the
  accuracy check.
\<close>

theorem canonical_equals_strided:
  "(\<exists>a b. make_canonical [n, c, h, w] nhwc = Inr a
         \<and> make_strided [n, c, h, w] [h * w * c, 1, w * c, c] = Inr b \<and> equals a b)
   \<and> (\<exists>a b. make_canonical [n, c, h, w] nchw = Inr a
         \<and> make_strided [n, c, h, w] [c * h * w, h * w, w, 1] = Inr b \<and> equals a b)
   \<and> (\<exists>a b. make_canonical [N, C, H, W] nhwc = Inr a
         \<and> make_strided [N, C, H, W] [stride_N, stride_C, stride_H, stride_W] = Inr b
         \<and> equals a b)
   \<and> getting_started_tutorial execute = check_result init_image (execute init_image)"
  unfolding make_canonical_nhwc make_canonical_nchw tutorial_passes_descriptor_check
  by (simp add: make_strided_def stride_N_def stride_H_def stride_W_def stride_C_def)

section \<open>Buffers of the memory format propagation example\<close>

lemma user_mds:
  "user_src_md = Inr nchw_src_md"
  "user_weights_md = Inr oihw_weights_md"
  "user_dst_md = Inr nchw_dst_md"
  by (simp_all add: user_src_md_def user_weights_md_def user_dst_md_def
      desc_of_tag_nchw desc_of_tag_oihw nchw_src_md_def oihw_weights_md_def nchw_dst_md_def)

lemmas alloc_defs =
  allocate_buffers_def user_mds then_do_def memory_def empty_store_def Let_def

lemmas md_defs =
  desc_neq_def nchw_src_md_def oihw_weights_md_def nchw_dst_md_def nhwc_src_md_def
  nhwc_dst_md_def blocked_weights_md_def nhwc_pool_pd_def nchw_pool_pd_def
  N'_def H'_def W'_def OC_def IC_def KH_def KW_def

lemmas step_defs =
  memory_format_propagation_tutorial_def reorder_src_step_def reorder_src_args_def
  reorder_weights_step_def reorder_weights_args_def conv_pool_step_def reorder_dst_step_def
  reorder_execute_def conv_execute_def pool_execute_def write_contents_def read_contents_def

text \<open>
  Claim C4.  The convolution reports the user's own source and weights layouts and a
  different destination layout.  No source reorder is needed, yet \<open>conv_src_mem\<close> is
  not \<open>src_mem\<close>: it is a new buffer (the fourth of six allocations) that nothing has
  written.  The weights buffer is passed through, as the claim says.
\<close>

theorem conv_src_not_passed_through:
  "\<exists>l s. allocate_buffers dst_only_conv_pd nhwc_pool_pd empty_store = Inr (l, s)
     \<and> \<not> need_reorder_src l
     \<and> conv_src_mem l \<noteq> src_mem l
     \<and> buffers s (conv_src_mem l) =
          Some \<lparr>desc = nchw_src_md, contents = Uninitialized (conv_src_mem l)\<rparr>
     \<and> next_handle s = 6
     \<and> \<not> need_reorder_weights l
     \<and> conv_weights_mem l = weights_mem l"
  by (simp add: alloc_defs md_defs dst_only_conv_pd_def)

text \<open>
  On that input the convolution reads the new buffer, which no step has filled, not the
  user's source.
\<close>

lemma conv_reads_unwritten_source:
  "\<exists>l s. memory_format_propagation_tutorial dst_only_conv_pd nhwc_pool_pd = Inr (l, s)
     \<and> conv_src_mem l \<noteq> src_mem l
     \<and> read_contents s (conv_dst_mem l) =
          Convolution (Uninitialized (conv_src_mem l)) (Uninitialized (weights_mem l))"
  by (simp add: alloc_defs md_defs dst_only_conv_pd_def step_defs)

text \<open>
  Claim C9.  The argument map of the source reorder binds \<open>DNNL_ARG_TO\<close> to
  \<open>conv_weights_mem\<close>, which is never the buffer \<open>conv_src_mem\<close>.  When the source
  needs a reorder, the step succeeds, writes the reordered source into
  \<open>conv_weights_mem\<close> and leaves \<open>conv_src_mem\<close> as it was.
\<close>

theorem source_reorder_writes_weights_buffer:
  "\<exists>l s. allocate_buffers pd pool_pd empty_store = Inr (l, s)
     \<and> map_of (reorder_src_args l) DNNL_ARG_TO = Some (conv_weights_mem l)
     \<and> conv_weights_mem l \<noteq> conv_src_mem l
     \<and> (need_reorder_src l \<longrightarrow>
          (\<exists>s'. reorder_src_step l s = Inr s'
             \<and> buffers s' (conv_src_mem l) = buffers s (conv_src_mem l)
             \<and> read_contents s' (conv_weights_mem l) = Reorder (read_contents s (src_mem l))))"
  by (simp add: alloc_defs reorder_src_args_def reorder_src_step_def reorder_execute_def
      write_contents_def read_contents_def)

theorem source_reorder_writes_weights_buffer_witness:
  "\<exists>l s. allocate_buffers logged_conv_pd nhwc_pool_pd empty_store = Inr (l, s)
     \<and> need_reorder_src l
     \<and> map_of (reorder_src_args l) DNNL_ARG_TO = Some (conv_weights_mem l)
     \<and> conv_weights_mem l \<noteq> conv_src_mem l
     \<and> (\<exists>s'. reorder_src_step l s = Inr s'
           \<and> buffers s' (conv_src_mem l) = buffers s (conv_src_mem l)
           \<and> read_contents s (conv_src_mem l) = Uninitialized 3
           \<and> read_contents s' (conv_src_mem l) = Uninitialized 3
           \<and> read_contents s' (conv_weights_mem l) = Reorder (Uninitialized 0))"
  using source_reorder_writes_weights_buffer [of logged_conv_pd nhwc_pool_pd]
  by (simp add: alloc_defs md_defs logged_conv_pd_def reorder_src_args_def
      reorder_src_step_def reorder_execute_def write_contents_def read_contents_def)

text \<open>
  Claim C10.  \<open>conv_src_mem\<close> is a new buffer with the descriptor
  \<open>conv_pd.src_desc()\<close> exactly when \<open>need_reorder_dst\<close> holds, and is \<open>src_mem\<close>
  itself otherwise, whatever \<open>need_reorder_src\<close> is.
\<close>

theorem conv_src_allocation_follows_dst_flag:
  "\<exists>l s. allocate_buffers pd pool_pd empty_store = Inr (l, s)
     \<and> need_reorder_src l = desc_neq (src_desc pd) nchw_src_md
     \<and> need_reorder_dst l = desc_neq (dst_desc pd) nchw_dst_md
     \<and> (if need_reorder_dst l
         then conv_src_mem l \<notin> {src_mem l, weights_mem l, dst_mem l}
              \<and> buffers s (conv_src_mem l) =
                   Some \<lparr>desc = src_desc pd, contents = Uninitialized (conv_src_mem l)\<rparr>
         else conv_src_mem l = src_mem l)"
  by (simp add: alloc_defs)

theorem conv_src_allocation_follows_dst_flag_witness:
  "\<exists>l s. allocate_buffers src_only_conv_pd nchw_pool_pd empty_store = Inr (l, s)
     \<and> need_reorder_src l
     \<and> \<not> need_reorder_dst l
     \<and> conv_src_mem l = src_mem l"
  using conv_src_allocation_follows_dst_flag [of src_only_conv_pd nchw_pool_pd]
  by (simp add: alloc_defs md_defs src_only_conv_pd_def)

section \<open>The accuracy check of the getting started example\<close>

lemma for_each_Inr_iff:
  "for_each body xs = Inr () \<longleftrightarrow> (\<forall>x \<in> set xs. body x = Inr ())"
  by (induction xs) (auto split: sum.splits)

lemma for_each_Inl: "for_each body xs = Inl e \<Longrightarrow> \<exists>x \<in> set xs. body x = Inl e"
  by (induction xs) (auto split: sum.splits)

lemma fold_invariant:
  assumes "P s" and "\<And>x t. x \<in> set xs \<Longrightarrow> P t \<Longrightarrow> P (f x t)"
  shows "P (fold f xs s)"
  using assms by (induction xs arbitrary: s) auto

lemma valid_index_iff:
  "valid_index n h w c \<longleftrightarrow>
     n \<in> set [0..N - 1] \<and> h \<in> set [0..H - 1] \<and> w \<in> set [0..W - 1] \<and> c \<in> set [0..C - 1]"
  by (auto simp: valid_index_def)

text \<open>Every offset the loops compute is inside the image, and none is 0.\<close>

lemma offset_bounds:
  "valid_index n h w c \<Longrightarrow> 1 \<le> offset n h w c \<and> offset n h w c < image_size"
  by (simp add: valid_index_def offset_eq image_size_def N_def H_def W_def C_def)

lemma init_element_first_untouched:
  "valid_index n h w c \<Longrightarrow> first_untouched img \<Longrightarrow> first_untouched (init_element n h w c img)"
  using offset_bounds [of n h w c] by (simp add: first_untouched_def init_element_def Let_def)

lemma init_image_first_untouched: "first_untouched init_image"
  unfolding init_image_def
proof (rule fold_invariant)
  show "first_untouched (replicate (nat image_size) 0)"
    by (simp add: first_untouched_def image_size_def N_def H_def W_def C_def)
next
  fix n t assume n: "n \<in> set [0..N - 1]" and t: "first_untouched t"
  show "first_untouched
          (fold (\<lambda>h. fold (\<lambda>w. fold (\<lambda>c. init_element n h w c) [0..C - 1]) [0..W - 1])
             [0..H - 1] t)"
  proof (rule fold_invariant [where P = first_untouched, OF t])
    fix h t assume h: "h \<in> set [0..H - 1]" and t: "first_untouched t"
    show "first_untouched (fold (\<lambda>w. fold (\<lambda>c. init_element n h w c) [0..C - 1]) [0..W - 1] t)"
    proof (rule fold_invariant [where P = first_untouched, OF t])
      fix w t assume w: "w \<in> set [0..W - 1]" and t: "first_untouched t"
      show "first_untouched (fold (\<lambda>c. init_element n h w c) [0..C - 1] t)"
      proof (rule fold_invariant [where P = first_untouched, OF t])
        fix c t assume c: "c \<in> set [0..C - 1]" and t: "first_untouched t"
        from n h w c have "valid_index n h w c" by (simp only: valid_index_iff)
        then show "first_untouched (init_element n h w c t)"
          using t by (rule init_element_first_untouched)
      qed
    qed
  qed
qed

lemma length_init_image: "length init_image = 507"
  using init_image_first_untouched
  by (simp add: first_untouched_def image_size_def N_def H_def W_def C_def)

lemma check_result_iff:
  "check_result img r = Inr () \<longleftrightarrow>
     (\<forall>n h w c. valid_index n h w c \<longrightarrow> check_element img r n h w c = Inr ())"
  unfolding check_result_def for_each_Inr_iff valid_index_iff by blast

lemma check_result_throws:
  assumes "check_result img r \<noteq> Inr ()"
  shows "check_result img r = Inl (logic_error ''Accuracy check failed.'')"
proof -
  from assms obtain e where e: "check_result img r = Inl e"
    by (cases "check_result img r") auto
  then obtain n h w c where "check_element img r n h w c = Inl e"
    unfolding check_result_def by (blast dest: for_each_Inl)
  then have "e = logic_error ''Accuracy check failed.''"
    by (simp add: check_element_def Let_def split: if_splits)
  with e show ?thesis by simp
qed

text \<open>
  Claim C5.  The checking loops visit the offsets \<open>offset n h w c\<close>, which never
  include the element 0 of the tensor (nor any element of the channels 0 and 2).  A
  result that is the ReLU of the image everywhere but holds 5 in element 0, where the
  image holds 0, differs from \<open>max(0, pre-step value)\<close> there; the check passes all
  the same and the example exits with 0.
\<close>

theorem accuracy_check_misses_element:
  "(relu init_image)[0 := 5] ! 0 \<noteq> max 0 (init_image ! 0)
   \<and> check_result init_image ((relu init_image)[0 := 5]) = Inr ()
   \<and> main (\<lambda>img. (relu img)[0 := 5]) = Exit 0"
proof -
  have z: "init_image ! 0 = 0"
    using init_image_first_untouched by (simp add: first_untouched_def)
  have 1: "(relu init_image)[0 := 5] ! 0 \<noteq> max 0 (init_image ! 0)"
    by (simp add: relu_def z length_init_image)
  have 2: "check_result init_image ((relu init_image)[0 := 5]) = Inr ()"
    unfolding check_result_iff
  proof (intro allI impI)
    fix n h w c assume v: "valid_index n h w c"
    from offset_bounds [OF v]
    have "nat (offset n h w c) \<noteq> 0" and "nat (offset n h w c) < length init_image"
      by (auto simp add: length_init_image image_size_def N_def H_def W_def C_def)
    then show "check_element init_image ((relu init_image)[0 := 5]) n h w c = Inr ()"
      by (simp add: check_element_def Let_def relu_def max_def)
  qed
  have 3: "main (\<lambda>img. (relu img)[0 := 5]) = Exit 0"
    by (simp add: main_def tutorial_passes_descriptor_check 2)
  from 1 2 3 show ?thesis by simp
qed

text \<open>With the ReLU of the specification the check passes.\<close>

lemma relu_passes_check: "check_result init_image (relu init_image) = Inr ()"
  unfolding check_result_iff
proof (intro allI impI)
  fix n h w c assume v: "valid_index n h w c"
  from offset_bounds [OF v] have "nat (offset n h w c) < length init_image"
    by (auto simp add: length_init_image image_size_def N_def H_def W_def C_def)
  then show "check_element init_image (relu init_image) n h w c = Inr ()"
    by (simp add: check_element_def Let_def relu_def max_def)
qed

section \<open>The check of the INT8 example and its exit status\<close>

lemma check_C_u8_eq:
  "check_C_u8 v idx = (if \<exists>i \<in> set idx. uint (v ! i) < zp_C then 1 else 0)"
  by (induction idx) auto

lemma infer_eq:
  "run m = Inr w \<Longrightarrow>
   infer run m n k =
     Inr (if \<exists>i < nat (m * n). uint (C_u8_after m n w ! i) < zp_C then 1 else 0)"
  by (simp add: infer_def then_do_def check_C_u8_eq Bex_def)

lemma infer_throws: "run m = Inl e \<Longrightarrow> infer run m n k = Inl e"
  by (simp add: infer_def then_do_def)

lemma inference_eq:
  assumes "run 1 = Inr w1" and "run 100 = Inr w100"
  shows "inference_int8_matmul run =
     Inr (if (\<exists>i < nat (1 * matmul_N). uint (C_u8_after 1 matmul_N w1 ! i) < zp_C)
             \<or> (\<exists>i < nat (100 * matmul_N). uint (C_u8_after 100 matmul_N w100 ! i) < zp_C)
          then 1 else 0)"
  by (simp add: inference_int8_matmul_def then_do_def
      infer_eq [of run 1 w1, OF assms(1)] infer_eq [of run 100 w100, OF assms(2)])

lemma main_int8_eq:
  assumes "run 1 = Inr w1" and "run 100 = Inr w100"
  shows "main_int8_matmul run =
     ([if (\<exists>i < nat (1 * matmul_N). uint (C_u8_after 1 matmul_N w1 ! i) < zp_C)
             \<or> (\<exists>i < nat (100 * matmul_N). uint (C_u8_after 100 matmul_N w100 ! i) < zp_C)
          then ''failed'' else ''passed''], Exit 0)"
  by (simp add: main_int8_matmul_def inference_eq [OF assms])

lemma main_int8_second_run:
  assumes "run 1 = Inr w1" and "run 100 = Inl dnnl_error"
  shows "main_int8_matmul run = ([], Exit 0)"
  by (simp add: main_int8_matmul_def inference_int8_matmul_def then_do_def
      infer_eq [of run 1 w1, OF assms(1)] infer_throws [of run 100, OF assms(2)])

lemma main_int8_first_run:
  assumes "run 1 = Inl dnnl_error"
  shows "main_int8_matmul run = ([], Exit 0)"
  by (simp add: main_int8_matmul_def inference_int8_matmul_def then_do_def
      infer_throws [of run 1, OF assms])

lemma inference_second_run_throws:
  assumes "run 1 = Inr w1" and "run 100 = Inl e"
  shows "inference_int8_matmul run = Inl e"
  by (simp add: inference_int8_matmul_def then_do_def
      infer_eq [of run 1 w1, OF assms(1)] infer_throws [of run 100, OF assms(2)])

lemma one_low_below_zp_C:
  "\<exists>i < nat (1 * matmul_N).
      uint (C_u8_after 1 matmul_N (39 # replicate (nat (1 * matmul_N) - 1) 40) ! i) < zp_C"
  by (rule exI [of _ 0]) (simp add: C_u8_after_def matmul_N_def zp_C_def)

lemma zeros_below_zp_C:
  "\<exists>i < nat (1 * matmul_N).
      uint (C_u8_after 1 matmul_N (replicate (nat (1 * matmul_N)) 0) ! i) < zp_C"
  by (rule exI [of _ 0]) (simp add: C_u8_after_def matmul_N_def zp_C_def)

lemma shifted_relu_fails_check: "check_result init_image (shifted_relu init_image) \<noteq> Inr ()"
proof -
  have v: "valid_index 0 0 0 0"
    by (simp add: valid_index_def N_def H_def W_def C_def)
  have "check_element init_image (shifted_relu init_image) 0 0 0 0 \<noteq> Inr ()"
    by (simp add: check_element_def Let_def shifted_relu_def offset_eq length_init_image max_def)
  with v show ?thesis unfolding check_result_iff by blast
qed

text \<open>
  Claim C6, as stated: a failed check of the INT8 example gives a non-zero exit status.
  The library writes zeros, all below \<open>zp_C\<close>; \<open>infer\<close> returns 1, \<open>main\<close> prints
  \<open>failed\<close> and the exit status is 0.
\<close>

theorem int8_failure_exits_zero:
  "infer zero_output 1 matmul_N matmul_K = Inr 1
   \<and> main_int8_matmul zero_output = ([''failed''], Exit 0)"
proof -
  have 1: "zero_output 1 = Inr (replicate (nat (1 * matmul_N)) 0)"
    and 2: "zero_output 100 = Inr (replicate (nat (100 * matmul_N)) 0)"
    by (simp_all add: zero_output_def)
  show ?thesis
    using zeros_below_zp_C
    by (simp add: infer_eq [of zero_output 1 _ matmul_N matmul_K, OF 1]
        main_int8_eq [of zero_output, OF 1 2])
qed

text \<open>
  Claim C6, amended.  Whenever the check of the getting started example detects a
  mismatch, the example terminates with a non-zero status.  In the INT8 example an
  element below \<open>zp_C\<close> in the result for some \<open>M\<close> makes \<open>infer\<close> return 1 for
  it; the run for \<open>M = 100\<close> is made whatever the check for \<open>M = 1\<close> found; when both
  runs return, \<open>main\<close> prints \<open>failed\<close> if an element of either result is below
  \<open>zp_C\<close> and \<open>passed\<close> otherwise, and the exit status is 0 in both cases; when the
  library throws \<open>dnnl::error\<close> in either run, \<open>main\<close> prints nothing to the
  standard output and the exit status is 0.
\<close>

theorem mismatch_outcomes:
  "(check_result init_image (execute init_image) \<noteq> Inr ()
      \<longrightarrow> nonzero_status (main execute))
   \<and> (run m = Inr w
        \<and> (\<exists>i < nat (m * matmul_N). uint (C_u8_after m matmul_N w ! i) < zp_C)
      \<longrightarrow> infer run m matmul_N matmul_K = Inr 1)
   \<and> (run 1 = Inr w1 \<and> run 100 = Inr w100
      \<longrightarrow> main_int8_matmul run =
           ([if (\<exists>i < nat (1 * matmul_N). uint (C_u8_after 1 matmul_N w1 ! i) < zp_C)
                 \<or> (\<exists>i < nat (100 * matmul_N). uint (C_u8_after 100 matmul_N w100 ! i) < zp_C)
             then ''failed'' else ''passed''], Exit 0))
   \<and> (run 1 = Inl dnnl_error
      \<longrightarrow> main_int8_matmul run = ([], Exit 0))
   \<and> (run 1 = Inr w1 \<and> run 100 = Inl dnnl_error
      \<longrightarrow> main_int8_matmul run = ([], Exit 0))"
proof (intro conjI impI)
  assume "check_result init_image (execute init_image) \<noteq> Inr ()"
  then have "check_result init_image (execute init_image) =
      Inl (logic_error ''Accuracy check failed.'')"
    by (rule check_result_throws)
  then show "nonzero_status (main execute)"
    by (simp add: main_def tutorial_passes_descriptor_check)
next
  assume "run m = Inr w
        \<and> (\<exists>i < nat (m * matmul_N). uint (C_u8_after m matmul_N w ! i) < zp_C)"
  then show "infer run m matmul_N matmul_K = Inr 1"
    using infer_eq [of run m w matmul_N matmul_K] by simp
next
  assume "run 1 = Inr w1 \<and> run 100 = Inr w100"
  then show "main_int8_matmul run =
           ([if (\<exists>i < nat (1 * matmul_N). uint (C_u8_after 1 matmul_N w1 ! i) < zp_C)
                 \<or> (\<exists>i < nat (100 * matmul_N). uint (C_u8_after 100 matmul_N w100 ! i) < zp_C)
             then ''failed'' else ''passed''], Exit 0)"
    using main_int8_eq [of run w1 w100] by blast
next
  assume "run 1 = Inl dnnl_error"
  then show "main_int8_matmul run = ([], Exit 0)"
    by (rule main_int8_first_run)
next
  assume "run 1 = Inr w1 \<and> run 100 = Inl dnnl_error"
  then show "main_int8_matmul run = ([], Exit 0)"
    using main_int8_second_run [of run w1] by blast
qed

theorem mismatch_outcomes_witness:
  "check_result init_image (shifted_relu init_image) \<noteq> Inr ()
   \<and> nonzero_status (main shifted_relu)
   \<and> (\<exists>w1 w100. zero_output 1 = Inr w1 \<and> zero_output 100 = Inr w100
        \<and> (\<exists>i < nat (1 * matmul_N). uint (C_u8_after 1 matmul_N w1 ! i) < zp_C)
        \<and> infer zero_output 1 matmul_N matmul_K = Inr 1
        \<and> main_int8_matmul zero_output = ([''failed''], Exit 0))
   \<and> failing_first_run 1 = Inl dnnl_error
   \<and> main_int8_matmul failing_first_run = ([], Exit 0)
   \<and> (\<exists>w1. failing_second_run 1 = Inr w1 \<and> failing_second_run 100 = Inl dnnl_error
        \<and> main_int8_matmul failing_second_run = ([], Exit 0))"
proof -
  have 1: "zero_output 1 = Inr (replicate (nat (1 * matmul_N)) 0)"
    and 2: "zero_output 100 = Inr (replicate (nat (100 * matmul_N)) 0)"
    by (simp_all add: zero_output_def)
  have 3: "failing_second_run 1 = Inr (replicate (nat (1 * matmul_N)) 0)"
    and 4: "failing_second_run 100 = Inl dnnl_error"
    by (simp_all add: failing_second_run_def)
  have 5: "failing_first_run 1 = Inl dnnl_error"
    by (simp add: failing_first_run_def)
  have a: "nonzero_status (main shifted_relu)"
    using mismatch_outcomes [of shifted_relu] shifted_relu_fails_check by blast
  have b: "main_int8_matmul zero_output = ([''failed''], Exit 0)"
    using mismatch_outcomes [of _ zero_output _ _ "replicate (nat (1 * matmul_N)) 0"
        "replicate (nat (100 * matmul_N)) 0"] 1 2 zeros_below_zp_C
    by simp
  have c: "main_int8_matmul failing_second_run = ([], Exit 0)"
    using mismatch_outcomes [of _ failing_second_run _ _ "replicate (nat (1 * matmul_N)) 0"]
      3 4
    by simp
  have d: "infer zero_output 1 matmul_N matmul_K = Inr 1"
    using mismatch_outcomes [of _ zero_output 1 "replicate (nat (1 * matmul_N)) 0"] 1
      zeros_below_zp_C
    by blast
  have e: "main_int8_matmul failing_first_run = ([], Exit 0)"
    using mismatch_outcomes [of _ failing_first_run] 5 by blast
  from a b c d e 1 2 3 4 5 shifted_relu_fails_check zeros_below_zp_C show ?thesis
    by blast
qed

section \<open>The modelled primitive of the INT8 example\<close>

lemma saturate_u8_lower:
  assumes "40 \<le> x"
  shows "40 \<le> uint (saturate_u8 x)"
proof -
  from assms have "round (40::real) \<le> round x" by (rule round_mono)
  then have r: "40 \<le> round x" by simp
  have "uint (saturate_u8 x) = max 0 (min 255 (round x))"
    unfolding saturate_u8_def by (simp add: uint_word_of_int take_bit_int_eq_self)
  with r show ?thesis by simp
qed

lemma matmul_element_lower: "zp_C \<le> uint (matmul_element a b sc n k row col)"
  unfolding matmul_element_def Let_def zp_C_def
  by (rule saturate_u8_lower) simp

lemma matmul_relu_eq:
  "\<exists>out. matmul_relu a b sc m = Inr out \<and> length out = nat (m * matmul_N)
     \<and> (\<forall>i < length out. zp_C \<le> uint (out ! i))"
  by (simp add: matmul_relu_def matmul_element_lower)

lemma C_u8_after_exact: "length w = nat (m * n) \<Longrightarrow> C_u8_after m n w = w"
  by (simp add: C_u8_after_def)

lemma infer_matmul_relu: "infer (matmul_relu a b sc) m matmul_N matmul_K = Inr 0"
proof -
  obtain out where o: "matmul_relu a b sc m = Inr out" "length out = nat (m * matmul_N)"
      "\<forall>i < length out. zp_C \<le> uint (out ! i)"
    using matmul_relu_eq by blast
  have "\<not> (\<exists>i < nat (m * matmul_N). uint (C_u8_after m matmul_N out ! i) < zp_C)"
    using o(2,3) by (auto simp add: C_u8_after_exact not_less)
  then show ?thesis
    using infer_eq [of "matmul_relu a b sc" m out matmul_N matmul_K, OF o(1)] by simp
qed

lemma inference_matmul_relu: "inference_int8_matmul (matmul_relu a b sc) = Inr 0"
  by (simp add: inference_int8_matmul_def infer_matmul_relu then_do_def)

lemma int8_soft_failure:
  assumes "run 1 = Inr w1" and "run 100 = Inr w100"
    and "(\<exists>i < nat (1 * matmul_N). uint (C_u8_after 1 matmul_N w1 ! i) < zp_C)
            \<or> (\<exists>i < nat (100 * matmul_N). uint (C_u8_after 100 matmul_N w100 ! i) < zp_C)"
  shows "inference_int8_matmul run = Inr 1 \<and> main_int8_matmul run = ([''failed''], Exit 0)"
proof -
  have a: "inference_int8_matmul run = Inr 1"
    unfolding inference_eq [of run w1 w100, OF assms(1,2)] using assms(3) by (simp only: if_True)
  have b: "main_int8_matmul run = ([''failed''], Exit 0)"
    unfolding main_int8_eq [of run w1 w100, OF assms(1,2)] using assms(3) by (simp only: if_True)
  from a b show ?thesis ..
qed

text \<open>
  Claim C8, as stated: an element below \<open>zp_C\<close> is a hard failure.  The library writes
  a result whose first element is 39: \<open>infer\<close> returns 1, \<open>main\<close> prints \<open>failed\<close>,
  and the process ends with exit status 0.
\<close>

theorem int8_low_element_soft_failure:
  "(\<exists>w. one_low_output 1 = Inr w \<and> uint (C_u8_after 1 matmul_N w ! 0) < zp_C)
   \<and> infer one_low_output 1 matmul_N matmul_K = Inr 1
   \<and> main_int8_matmul one_low_output = ([''failed''], Exit 0)"
proof -
  have 1: "one_low_output 1 = Inr (39 # replicate (nat (1 * matmul_N) - 1) 40)"
    and 2: "one_low_output 100 = Inr (39 # replicate (nat (100 * matmul_N) - 1) 40)"
    by (simp_all add: one_low_output_def)
  have 3: "uint (C_u8_after 1 matmul_N (39 # replicate (nat (1 * matmul_N) - 1) 40) ! 0)
      < zp_C"
    by (simp add: C_u8_after_def matmul_N_def zp_C_def)
  have 4: "infer one_low_output 1 matmul_N matmul_K = Inr 1"
    using one_low_below_zp_C
    by (simp add: infer_eq [of one_low_output 1 _ matmul_N matmul_K, OF 1])
  have 5: "main_int8_matmul one_low_output = ([''failed''], Exit 0)"
    using one_low_below_zp_C by (simp add: main_int8_eq [of one_low_output, OF 1 2])
  from 1 3 4 5 show ?thesis by blast
qed

text \<open>
  Claim C8, amended.  For every source matrix, weights and scales, and for both values
  of \<open>M\<close>, every element the primitive writes is at least \<open>zp_C\<close>, so \<open>infer\<close>
  returns 0 and the example prints \<open>passed\<close>.  Whatever the primitive writes, an
  element below \<open>zp_C\<close> is a reported failure and not a fatal one: \<open>infer\<close> returns 1
  for that \<open>M\<close>; when both runs return, \<open>inference_int8_matmul\<close> returns 1, \<open>main\<close>
  prints \<open>failed\<close> and the exit status is 0; and after a failed check for \<open>M = 1\<close>
  the run for \<open>M = 100\<close> is still made, an exception of it ending the inference.
\<close>

theorem int8_output_at_least_zero_point:
  "(\<forall>m \<in> {1, 100}. \<exists>out. matmul_relu A_u8 B_s8 scales m = Inr out
        \<and> length out = nat (m * matmul_N)
        \<and> (\<forall>i < length out. zp_C \<le> uint (out ! i))
        \<and> infer (matmul_relu A_u8 B_s8 scales) m matmul_N matmul_K = Inr 0)
   \<and> inference_int8_matmul (matmul_relu A_u8 B_s8 scales) = Inr 0
   \<and> main_int8_matmul (matmul_relu A_u8 B_s8 scales) = ([''passed''], Exit 0)
   \<and> (\<forall>run m w. run m = Inr w
         \<and> (\<exists>i < nat (m * matmul_N). uint (C_u8_after m matmul_N w ! i) < zp_C)
         \<longrightarrow> infer run m matmul_N matmul_K = Inr 1)
   \<and> (\<forall>run w1 w100. run 1 = Inr w1 \<and> run 100 = Inr w100
         \<and> ((\<exists>i < nat (1 * matmul_N). uint (C_u8_after 1 matmul_N w1 ! i) < zp_C)
            \<or> (\<exists>i < nat (100 * matmul_N). uint (C_u8_after 100 matmul_N w100 ! i) < zp_C))
         \<longrightarrow> inference_int8_matmul run = Inr 1
             \<and> main_int8_matmul run = ([''failed''], Exit 0))
   \<and> (\<forall>run w1 e. run 1 = Inr w1
         \<and> (\<exists>i < nat (1 * matmul_N). uint (C_u8_after 1 matmul_N w1 ! i) < zp_C)
         \<and> run 100 = Inl e
         \<longrightarrow> inference_int8_matmul run = Inl e)"
proof (intro conjI ballI allI impI)
  fix m :: int
  show "\<exists>out. matmul_relu A_u8 B_s8 scales m = Inr out
        \<and> length out = nat (m * matmul_N)
        \<and> (\<forall>i < length out. zp_C \<le> uint (out ! i))
        \<and> infer (matmul_relu A_u8 B_s8 scales) m matmul_N matmul_K = Inr 0"
    using matmul_relu_eq [of A_u8 B_s8 scales m] infer_matmul_relu [of A_u8 B_s8 scales m]
    by blast
next
  show "inference_int8_matmul (matmul_relu A_u8 B_s8 scales) = Inr 0"
    by (rule inference_matmul_relu)
next
  show "main_int8_matmul (matmul_relu A_u8 B_s8 scales) = ([''passed''], Exit 0)"
    by (simp add: main_int8_matmul_def inference_matmul_relu)
next
  fix run :: "int \<Rightarrow> exn + 8 word list" and m w
  assume "run m = Inr w
         \<and> (\<exists>i < nat (m * matmul_N). uint (C_u8_after m matmul_N w ! i) < zp_C)"
  then show "infer run m matmul_N matmul_K = Inr 1"
    using infer_eq [of run m w matmul_N matmul_K] by simp
next
  fix run :: "int \<Rightarrow> exn + 8 word list" and w1 w100
  assume a: "run 1 = Inr w1 \<and> run 100 = Inr w100
         \<and> ((\<exists>i < nat (1 * matmul_N). uint (C_u8_after 1 matmul_N w1 ! i) < zp_C)
            \<or> (\<exists>i < nat (100 * matmul_N). uint (C_u8_after 100 matmul_N w100 ! i) < zp_C))"
  from a have "inference_int8_matmul run = Inr 1 \<and> main_int8_matmul run = ([''failed''], Exit 0)"
    using int8_soft_failure [of run w1 w100] by (elim conjE) simp
  then show "inference_int8_matmul run = Inr 1"
    and "main_int8_matmul run = ([''failed''], Exit 0)" by simp_all
next
  fix run :: "int \<Rightarrow> exn + 8 word list" and w1 e
  assume "run 1 = Inr w1
         \<and> (\<exists>i < nat (1 * matmul_N). uint (C_u8_after 1 matmul_N w1 ! i) < zp_C)
         \<and> run 100 = Inl e"
  then show "inference_int8_matmul run = Inl e"
    using inference_second_run_throws [of run w1 e] by simp
qed


theorem int8_output_at_least_zero_point_witness:
  "(\<exists>out. matmul_relu sample_A_u8 sample_B_s8 sample_scales 1 = Inr out
       \<and> length out = 1000 \<and> zp_C \<le> uint (out ! 0) \<and> zp_C \<le> uint (out ! 999))
   \<and> inference_int8_matmul (matmul_relu sample_A_u8 sample_B_s8 sample_scales) = Inr 0
   \<and> zero_output 1 = Inr (replicate (nat (1 * matmul_N)) 0)
   \<and> zero_output 100 = Inr (replicate (nat (100 * matmul_N)) 0)
   \<and> (\<exists>i < nat (1 * matmul_N).
         uint (C_u8_after 1 matmul_N (replicate (nat (1 * matmul_N)) 0) ! i) < zp_C)
   \<and> infer zero_output 1 matmul_N matmul_K = Inr 1
   \<and> inference_int8_matmul zero_output = Inr 1
   \<and> main_int8_matmul zero_output = ([''failed''], Exit 0)
   \<and> failing_second_run 1 = Inr (replicate (nat (1 * matmul_N)) 0)
   \<and> failing_second_run 100 = Inl dnnl_error
   \<and> inference_int8_matmul failing_second_run = Inl dnnl_error"
proof -
  note t = int8_output_at_least_zero_point [of sample_A_u8 sample_B_s8 sample_scales]
  note t1 = t [THEN conjunct1]
  note t2 = t [THEN conjunct2, THEN conjunct1]
  note t4 = t [THEN conjunct2, THEN conjunct2, THEN conjunct2, THEN conjunct1]
  note t5 = t [THEN conjunct2, THEN conjunct2, THEN conjunct2, THEN conjunct2, THEN conjunct1]
  note t6 = t [THEN conjunct2, THEN conjunct2, THEN conjunct2, THEN conjunct2, THEN conjunct2]
  from t1 obtain out where o: "matmul_relu sample_A_u8 sample_B_s8 sample_scales 1 = Inr out"
      "length out = nat (1 * matmul_N)" "\<forall>i < length out. zp_C \<le> uint (out ! i)"
    by auto
  from o(2) have len: "length out = 1000" by (simp add: matmul_N_def)
  with o(3) have e: "zp_C \<le> uint (out ! 0)" "zp_C \<le> uint (out ! 999)" by simp_all
  from o(1) len e
  have a: "\<exists>out. matmul_relu sample_A_u8 sample_B_s8 sample_scales 1 = Inr out
       \<and> length out = 1000 \<and> zp_C \<le> uint (out ! 0) \<and> zp_C \<le> uint (out ! 999)"
    by blast
  have z: "zero_output 1 = Inr (replicate (nat (1 * matmul_N)) 0)"
    and z': "zero_output 100 = Inr (replicate (nat (100 * matmul_N)) 0)"
    by (simp_all only: zero_output_def)
  have s: "failing_second_run 1 = Inr (replicate (nat (1 * matmul_N)) 0)"
    and s': "failing_second_run 100 = Inl dnnl_error"
    by (simp_all add: failing_second_run_def)
  have f: "infer zero_output 1 matmul_N matmul_K = Inr 1"
    using t4 [rule_format, of zero_output 1 "replicate (nat (1 * matmul_N)) 0"]
      z zeros_below_zp_C by (simp only: simp_thms)
  have g: "inference_int8_matmul zero_output = Inr 1
      \<and> main_int8_matmul zero_output = ([''failed''], Exit 0)"
    using t5 [rule_format, of zero_output "replicate (nat (1 * matmul_N)) 0"
        "replicate (nat (100 * matmul_N)) 0"] z z' zeros_below_zp_C
    by (simp only: simp_thms)
  have h: "inference_int8_matmul failing_second_run = Inl dnnl_error"
    using t6 [rule_format, of failing_second_run "replicate (nat (1 * matmul_N)) 0" dnnl_error]
      s s' zeros_below_zp_C by (simp only: simp_thms)
  from a t2 z z' zeros_below_zp_C f g s s' h show ?thesis
    by (intro conjI) (simp_all only: simp_thms)
qed

end
